theory Spec2Isabelle
  imports Complex_Main
begin

section \<open>Conventions of the embedding\<close>

text \<open>
  The repository is a Python backend of three modules: \<^verbatim>\<open>gemini_advisor.py\<close>,
  \<^verbatim>\<open>main.py\<close> and \<^verbatim>\<open>sensor_reader.py\<close>.

  \<^item> A Python \<^verbatim>\<open>float\<close> is a \<^typ>\<open>real\<close>: arithmetic is exact, and the values
    \<^verbatim>\<open>nan\<close> and \<^verbatim>\<open>inf\<close> are not represented. Every comparison with a threshold
    is the comparison the code makes.
  \<^item> An optional value (\<^verbatim>\<open>None\<close> or a value) is an \<^typ>\<open>'a option\<close>.
  \<^item> A dictionary with fixed keys is a record with one field per key.
  \<^item> A call that leaves the process (the reasoning service, the predictive model, the
    encoder, the history store, a WMI query) is a parameter holding the outcome of that
    call: \<open>Inl msg\<close> when it raised an exception whose \<^verbatim>\<open>str\<close> is \<open>msg\<close>,
    \<open>Inr v\<close> when it returned \<open>v\<close>.
  \<^item> A \<^verbatim>\<open>try\<close>/\<^verbatim>\<open>except Exception\<close> block is a case distinction on such an
    outcome.
\<close>

section \<open>\<^verbatim>\<open>gemini_advisor.py\<close>\<close>

text \<open>The dictionary returned by \<^verbatim>\<open>get_gemini_advice\<close>, key by key.\<close>

record advice =
  natural_language_tip :: string
  alert_level :: string
  optional_action :: "string option"
  predicted_health_impact :: real

text \<open>
  \<^verbatim>\<open>cpu_temp and cpu_temp > t\<close>: Python's \<^verbatim>\<open>and\<close> yields its left operand when
  that is falsy, and \<^verbatim>\<open>None\<close> and \<^verbatim>\<open>0.0\<close> are the falsy values of an optional
  float; otherwise it yields the comparison.
\<close>

definition truthy :: "real option \<Rightarrow> bool" where
  "truthy x = (case x of None \<Rightarrow> False | Some v \<Rightarrow> v \<noteq> 0)"

definition cpu_over :: "real option \<Rightarrow> real \<Rightarrow> bool" where
  "cpu_over cpu_temp t = (truthy cpu_temp \<and> (case cpu_temp of None \<Rightarrow> False | Some v \<Rightarrow> v > t))"

text \<open>Lines 53 to 59: the health impact score, accumulated from \<open>0.0\<close>.\<close>

definition impact_score :: "real \<Rightarrow> string \<Rightarrow> real option \<Rightarrow> real" where
  "impact_score battery_temp device_state cpu_temp =
     (let s0 = 0;
          s1 = (if battery_temp > 25 then s0 + (battery_temp - 25) * 0.003 else s0);
          s2 = (if device_state = ''charging'' \<and> battery_temp > 30 then s1 + 0.02 else s1);
          s3 = (if cpu_over cpu_temp 60 then s2 + (the cpu_temp - 60) * 0.001 else s2)
      in s3)"

text \<open>
  Lines 39 to 66: the rest of the \<^verbatim>\<open>try\<close> block once the service has answered
  with \<open>advice_text\<close>. None of these lines can raise on floats.
\<close>

definition primary_advice :: "real \<Rightarrow> string \<Rightarrow> real option \<Rightarrow> string \<Rightarrow> advice" where
  "primary_advice battery_temp device_state cpu_temp advice_text =
     (let (level, action) =
            (if battery_temp > 45 \<or> cpu_over cpu_temp 85
               then (''danger'', Some ''Immediate cooling required - shut down intensive tasks'')
             else if battery_temp > 38 \<or> cpu_over cpu_temp 70
               then (''warning'', Some ''Monitor temperature and reduce workload'')
             else (''safe'', None))
      in \<lparr> natural_language_tip = advice_text,
           alert_level = level,
           optional_action = action,
           predicted_health_impact = min (impact_score battery_temp device_state cpu_temp) 0.15 \<rparr>)"

text \<open>
  Lines 72 to 85: the \<^verbatim>\<open>except\<close> block. The two canned texts start with a symbol
  outside ASCII (U+26A0 U+FE0F and U+2705), written here as the bytes of its UTF-8
  encoding.
\<close>

definition fallback_advice :: "real \<Rightarrow> advice" where
  "fallback_advice battery_temp =
     (if battery_temp > 40 then
        \<lparr> natural_language_tip =
            [CHR 0xE2, CHR 0x9A, CHR 0xA0, CHR 0xEF, CHR 0xB8, CHR 0x8F] @
            '' High battery temperature detected. Please close intensive applications and allow your device to cool down. Avoid charging until temperature normalizes.'',
          alert_level = ''danger'',
          optional_action = Some ''Stop charging and close heavy applications'',
          predicted_health_impact = 0.1 \<rparr>
      else
        \<lparr> natural_language_tip =
            [CHR 0xE2, CHR 0x9C, CHR 0x85] @
            '' Your device temperature is within normal range. Continue regular usage while monitoring for any changes.'',
          alert_level = ''safe'',
          optional_action = None,
          predicted_health_impact = 0.02 \<rparr>)"

text \<open>
  \<^verbatim>\<open>get_gemini_advice\<close>. The parameter \<open>service\<close> is the outcome of lines 18 to 39
  (building the client, \<^verbatim>\<open>generate_content(prompt)\<close> and reading
  \<^verbatim>\<open>response.text\<close>): the text of the answer, or the exception raised on the way.
  \<open>ambient_temp\<close> and \<open>battery_level\<close> only enter the prompt.
\<close>

definition get_gemini_advice ::
  "real \<Rightarrow> real \<Rightarrow> string \<Rightarrow> int option \<Rightarrow> real option \<Rightarrow> string + string \<Rightarrow> advice" where
  "get_gemini_advice battery_temp ambient_temp device_state battery_level cpu_temp service =
     (case service of
        Inr advice_text \<Rightarrow> primary_advice battery_temp device_state cpu_temp advice_text
      | Inl e \<Rightarrow> fallback_advice battery_temp)"

section \<open>\<^verbatim>\<open>sensor_reader.py\<close>\<close>

text \<open>
  One row of the hardware monitor's \<^verbatim>\<open>Sensor\<close> class. \<^verbatim>\<open>Name\<close> and
  \<^verbatim>\<open>Value\<close> are WMI properties and may be \<^verbatim>\<open>None\<close>.
\<close>

record sensor =
  SensorType :: string
  Name :: "string option"
  Value :: "real option"

text \<open>
  A WMI client is known by what its \<^verbatim>\<open>Sensor()\<close> query does: it raises, or it
  returns the rows. The \<^verbatim>\<open>root\WMI\<close> namespace, which \<^verbatim>\<open>__init__\<close> falls back
  to, has no such class, so the query raises there.
\<close>

type_synonym wmi = "string + sensor list"

record SensorReader =
  is_windows :: bool
  wmi_client :: "wmi option"

text \<open>
  \<^verbatim>\<open>__init__\<close>, lines 8 to 20. \<open>windows\<close> is \<^verbatim>\<open>platform.system() == 'Windows'\<close>;
  \<open>ohm\<close> and \<open>root_wmi\<close> are the outcomes of the two \<^verbatim>\<open>wmi.WMI(namespace=...)\<close>
  calls.
\<close>

definition init :: "bool \<Rightarrow> string + wmi \<Rightarrow> string + wmi \<Rightarrow> SensorReader" where
  "init windows ohm root_wmi =
     \<lparr> is_windows = windows,
       wmi_client =
         (if windows then
            (case ohm of
               Inr client \<Rightarrow> Some client
             | Inl e \<Rightarrow> (case root_wmi of Inr client \<Rightarrow> Some client | Inl e2 \<Rightarrow> None))
          else None) \<rparr>"

text \<open>The dictionary \<^verbatim>\<open>temperatures\<close>.\<close>

record temperatures =
  cpu :: "real option"
  battery :: "real option"
  system :: "real option"
  source :: string

text \<open>
  \<^verbatim>\<open>str.lower\<close> on the ASCII letters (a byte outside \<open>A\<close> to \<open>Z\<close> is kept), and
  the substring test \<^verbatim>\<open>sub in s\<close>.
\<close>

definition lower_char :: "char \<Rightarrow> char" where
  "lower_char c =
     (let n = (of_char c :: nat) in if 65 \<le> n \<and> n \<le> 90 then char_of (n + 32) else c)"

definition lower :: "string \<Rightarrow> string" where
  "lower s = map lower_char s"

fun py_in :: "string \<Rightarrow> string \<Rightarrow> bool" where
  "py_in sub [] = (sub = [])"
| "py_in sub (c # cs) = (take (length sub) (c # cs) = sub \<or> py_in sub cs)"

text \<open>
  Lines 62 to 72: the loop over the sensors. It updates the dictionary in place, so when
  \<^verbatim>\<open>sensor.Name.lower()\<close> raises on a \<^verbatim>\<open>None\<close> name the entries written so far
  stay: the result is the dictionary and the exception, if any.
\<close>

fun sensor_loop :: "sensor list \<Rightarrow> temperatures \<Rightarrow> temperatures \<times> string option" where
  "sensor_loop [] t = (t, None)"
| "sensor_loop (s # sensors) t =
     (if SensorType s = ''Temperature'' then
        (case Name s of
           None \<Rightarrow> (t, Some ''AttributeError'')
         | Some n \<Rightarrow>
             (let name = lower n; value = Value s
              in sensor_loop sensors
                   (if py_in ''cpu'' name \<and> cpu t = None then t\<lparr>cpu := value\<rparr>
                    else if py_in ''battery'' name \<and> battery t = None then t\<lparr>battery := value\<rparr>
                    else if py_in ''system'' name \<and> system t = None then t\<lparr>system := value\<rparr>
                    else t)))
      else sensor_loop sensors t)"

text \<open>
  Lines 80 to 92: the thermal zone query. \<open>acpi\<close> is the outcome of
  \<^verbatim>\<open>wmi.WMI(namespace="root\\WMI").MSAcpi_ThermalZoneTemperature()\<close>: an exception, or
  the \<^verbatim>\<open>CurrentTemperature\<close> of each zone. Dividing a \<^verbatim>\<open>None\<close> reading raises
  \<^verbatim>\<open>TypeError\<close>, which the inner \<^verbatim>\<open>except\<close> swallows like any other.
\<close>

definition acpi_celsius :: "real \<Rightarrow> real" where
  "acpi_celsius CurrentTemperature =
     (let kelvin_temp = CurrentTemperature / 10.0;
          celsius_temp = kelvin_temp - 273.15
      in celsius_temp)"

definition read_acpi :: "string + real option list \<Rightarrow> temperatures \<Rightarrow> temperatures" where
  "read_acpi acpi t =
     (case acpi of
        Inl e2 \<Rightarrow> t
      | Inr temp_sensors \<Rightarrow>
          (case temp_sensors of
             [] \<Rightarrow> t
           | z # zs \<Rightarrow>
               (case z of
                  None \<Rightarrow> t
                | Some raw \<Rightarrow> t\<lparr>system := Some (acpi_celsius raw), source := ''MSAcpi''\<rparr>)))"

text \<open>Lines 58 to 92: both attempts, starting from the empty dictionary of line 48.\<close>

definition read_providers :: "wmi \<Rightarrow> string + real option list \<Rightarrow> temperatures" where
  "read_providers client acpi =
     (let temperatures = \<lparr> cpu = None, battery = None, system = None, source = ''fallback'' \<rparr>
      in case client of
           Inl e \<Rightarrow> read_acpi acpi temperatures
         | Inr sensors \<Rightarrow>
             (case sensor_loop sensors temperatures of
                (t, None) \<Rightarrow> t\<lparr>source := ''OpenHardwareMonitor''\<rparr>
              | (t, Some e) \<Rightarrow> read_acpi acpi t))"

text \<open>
  Lines 95 to 100: the estimates. \<^verbatim>\<open>temperatures["cpu"] * 0.8\<close> raises
  \<^verbatim>\<open>TypeError\<close> when the entry is \<^verbatim>\<open>None\<close>, and nothing would catch it here, so
  the multiplication and the block return a sum.
\<close>

definition py_mul :: "real option \<Rightarrow> real \<Rightarrow> string + real" where
  "py_mul x k = (case x of None \<Rightarrow> Inl ''TypeError'' | Some v \<Rightarrow> Inr (v * k))"

definition fill_missing :: "temperatures \<Rightarrow> string + temperatures" where
  "fill_missing t0 =
     (let t1 = (if cpu t0 = None then t0\<lparr>cpu := Some 45.0\<rparr> else t0)
      in case (if battery t1 = None
               then (case py_mul (cpu t1) 0.8 of
                       Inl e \<Rightarrow> Inl e
                     | Inr v \<Rightarrow> Inr (t1\<lparr>battery := Some v\<rparr>))
               else Inr t1) of
           Inl e \<Rightarrow> Inl e
         | Inr t2 \<Rightarrow>
             (if system t2 = None
              then (case py_mul (cpu t2) 0.7 of
                      Inl e \<Rightarrow> Inl e
                    | Inr v \<Rightarrow> Inr (t2\<lparr>system := Some v\<rparr>))
              else Inr t2))"

text \<open>
  \<^verbatim>\<open>_get_fallback_temperature_info\<close>; \<open>u\<close> is the value drawn by
  \<^verbatim>\<open>random.uniform(-5, 10)\<close>.
\<close>

definition get_fallback_temperature_info :: "real \<Rightarrow> temperatures" where
  "get_fallback_temperature_info u =
     (let base_temp = 35 + u
      in \<lparr> cpu = Some base_temp,
           battery = Some (base_temp * 0.8),
           system = Some (base_temp * 0.7),
           source = ''simulated'' \<rparr>)"

text \<open>
  \<^verbatim>\<open>get_temperature_info\<close>: \<open>Inl\<close> is an exception leaving the method. A client
  object, when there is one, is truthy.
\<close>

definition get_temperature_info ::
  "SensorReader \<Rightarrow> string + real option list \<Rightarrow> real \<Rightarrow> string + temperatures" where
  "get_temperature_info self acpi u =
     (if \<not> is_windows self \<or> wmi_client self = None
      then Inr (get_fallback_temperature_info u)
      else (case wmi_client self of
              None \<Rightarrow> Inr (get_fallback_temperature_info u)
            | Some client \<Rightarrow> fill_missing (read_providers client acpi)))"

section \<open>\<^verbatim>\<open>main.py\<close>\<close>

text \<open>The request body \<^verbatim>\<open>SensorInput\<close> and the exception the endpoints raise.\<close>

record SensorInput =
  battery_temp :: real
  ambient_temp :: real
  device_state :: string
  battery_level :: "int option"
  cpu_temp :: "real option"

datatype http_exception = HTTPException (status_code: nat) (detail: string)

text \<open>
  What \<^verbatim>\<open>get_advice\<close> calls outside this repository's three modules:
  \<^item> \<open>load_columns\<close>: \<^verbatim>\<open>joblib.load(COLUMN_PATH)\<close>, the column schema;
  \<^item> \<open>encode\<close>: lines 99 and 100, the encoder's named one-hot columns for the device
    state;
  \<^item> \<open>predict\<close>: \<^verbatim>\<open>model.predict(X_live)[0]\<close> on the feature row;
  \<^item> \<open>generate\<close>: the outcome of the reasoning service, as in \<open>get_gemini_advice\<close>;
  \<^item> \<open>add_advisory\<close>: \<^verbatim>\<open>advisory_history.add_advisory(history_entry)\<close>, whose
    module is not among the sources.
\<close>

type_synonym history_entry = "SensorInput \<times> advice"

record env =
  load_columns :: "string + string list"
  encode :: "string \<Rightarrow> string + (string \<times> real) list"
  predict :: "(string \<times> real) list \<Rightarrow> string + real"
  generate :: "string + string"
  add_advisory :: "history_entry \<Rightarrow> string + unit"

text \<open>\<^verbatim>\<open>X.reindex(columns=columns, fill_value=0)\<close> on a frame of one row.\<close>

definition reindex :: "string list \<Rightarrow> (string \<times> real) list \<Rightarrow> (string \<times> real) list" where
  "reindex columns row =
     map (\<lambda>c. (c, case map_of row c of None \<Rightarrow> 0 | Some v \<Rightarrow> v)) columns"

text \<open>
  \<^verbatim>\<open>round(x, 5)\<close>: to the nearest multiple of \<open>10\<^sup>-\<^sup>5\<close>, a tie going to the even
  one.
\<close>

definition py_round5 :: "real \<Rightarrow> real" where
  "py_round5 x =
     (let y = x * 100000;
          f = \<lfloor>y\<rfloor>;
          d = y - of_int f;
          n = (if d < 1/2 then f else if d > 1/2 then f + 1 else if even f then f else f + 1)
      in of_int n / 100000)"

text \<open>
  \<^verbatim>\<open>get_alert_level\<close>, lines 54 to 60. No endpoint calls it.
\<close>

definition get_alert_level :: "real \<Rightarrow> string" where
  "get_alert_level impact =
     (if impact > 0.07 then ''danger'' else if impact > 0.04 then ''warning'' else ''safe'')"

text \<open>
  \<^verbatim>\<open>get_advice\<close>, lines 88 to 133. The whole body is one \<^verbatim>\<open>try\<close> block whose
  handler turns any exception into \<^verbatim>\<open>HTTPException(status_code=500, detail=str(e))\<close>.
\<close>

definition get_advice :: "env \<Rightarrow> SensorInput \<Rightarrow> http_exception + advice" where
  "get_advice env input =
     (case load_columns env of
        Inl e \<Rightarrow> Inl (HTTPException 500 e)
      | Inr columns \<Rightarrow>
     (case encode env (device_state input) of
        Inl e \<Rightarrow> Inl (HTTPException 500 e)
      | Inr encoded \<Rightarrow>
     (let X_live = reindex columns
            ([(''battery_temp'', battery_temp input), (''ambient_temp'', ambient_temp input)]
               @ encoded)
      in case predict env X_live of
        Inl e \<Rightarrow> Inl (HTTPException 500 e)
      | Inr impact \<Rightarrow>
     (let gemini_response =
            get_gemini_advice (battery_temp input) (ambient_temp input) (device_state input)
              (battery_level input) (cpu_temp input) (generate env);
          response =
            \<lparr> natural_language_tip = natural_language_tip gemini_response,
              alert_level = alert_level gemini_response,
              optional_action = optional_action gemini_response,
              predicted_health_impact = py_round5 impact \<rparr>
      in case add_advisory env (input, response) of
        Inl e \<Rightarrow> Inl (HTTPException 500 e)
      | Inr u \<Rightarrow> Inr response))))"

text \<open>
  An environment for the examples: a schema of four columns, an encoder that knows the
  states \<open>charging\<close> and \<open>idle\<close>, a history store that accepts every entry, and the
  two outcomes left open, the one of the predictive model and the one of the reasoning
  service.
\<close>

definition sample_env :: "string + real \<Rightarrow> string + string \<Rightarrow> env" where
  "sample_env prediction service =
     \<lparr> load_columns =
         Inr [''battery_temp'', ''ambient_temp'', ''device_state_charging'', ''device_state_idle''],
       encode = (\<lambda>state.
         Inr [(''device_state_charging'', if state = ''charging'' then 1 else 0),
              (''device_state_idle'', if state = ''idle'' then 1 else 0)]),
       predict = (\<lambda>row. prediction),
       generate = service,
       add_advisory = (\<lambda>entry. Inr ()) \<rparr>"

section \<open>The scoring rule as the specification words it\<close>

text \<open>
  The deterministic rule of the specification: \<open>max(0, batteryTemp - 25) * 0.003\<close>, plus
  \<open>0.02\<close> when charging above 30 degrees, plus \<open>max(0, cpuTemp - 60) * 0.001\<close> when a
  CPU temperature is present, the sum clamped to the interval from \<open>0\<close> to \<open>0.15\<close>.
  This definition follows the specification, not the code; \<open>impact_score\<close> above is the
  code.
\<close>

definition spec_impact :: "real \<Rightarrow> string \<Rightarrow> real option \<Rightarrow> real" where
  "spec_impact batteryTemp deviceState cpuTemp =
     max 0 (min 0.15
       (max 0 (batteryTemp - 25) * 0.003
        + (if deviceState = ''charging'' \<and> batteryTemp > 30 then 0.02 else 0)
        + (case cpuTemp of None \<Rightarrow> 0 | Some c \<Rightarrow> max 0 (c - 60) * 0.001)))"

section \<open>Properties of the advisory generator\<close>

subsection \<open>Auxiliary facts\<close>

lemma cpu_over_Some: "cpu_over (Some v) t = (v \<noteq> 0 \<and> v > t)"
  by (simp add: cpu_over_def truthy_def)

lemma cpu_over_None: "cpu_over None t = False"
  by (simp add: cpu_over_def truthy_def)

text \<open>For a threshold that is not negative, the truthiness test of \<open>cpu_temp\<close> is redundant.\<close>

lemma cpu_over_pos: "0 \<le> t \<Longrightarrow> cpu_over c t = (\<exists>v. c = Some v \<and> v > t)"
proof (cases c)
  case None
  then show ?thesis by (simp add: cpu_over_None)
next
  case (Some v)
  assume "0 \<le> t"
  then have "v > t \<Longrightarrow> v \<noteq> 0" by simp
  with Some show ?thesis by (auto simp add: cpu_over_Some)
qed

lemma alert_primary:
  "alert_level (primary_advice b d c txt) =
     (if b > 45 \<or> cpu_over c 85 then ''danger''
      else if b > 38 \<or> cpu_over c 70 then ''warning'' else ''safe'')"
  by (simp add: primary_advice_def)

lemma action_primary:
  "optional_action (primary_advice b d c txt) =
     (if b > 45 \<or> cpu_over c 85
        then Some ''Immediate cooling required - shut down intensive tasks''
      else if b > 38 \<or> cpu_over c 70
        then Some ''Monitor temperature and reduce workload'' else None)"
  by (simp add: primary_advice_def)

lemma impact_primary:
  "predicted_health_impact (primary_advice b d c txt) = min (impact_score b d c) 0.15"
  by (simp add: primary_advice_def split: prod.splits)

lemma impact_score_nonneg: "0 \<le> impact_score b d c"
  by (auto simp: impact_score_def cpu_over_def truthy_def Let_def split: option.splits)

lemma impact_score_sum_None:
  "impact_score b d None =
     max 0 (b - 25) * 0.003 + (if d = ''charging'' \<and> b > 30 then 0.02 else 0)"
  by (simp add: impact_score_def cpu_over_None max_def Let_def)

lemma impact_score_sum_Some:
  "impact_score b d (Some v) =
     max 0 (b - 25) * 0.003 + (if d = ''charging'' \<and> b > 30 then 0.02 else 0)
     + max 0 (v - 60) * 0.001"
proof (cases "v > 60")
  case True
  then have "cpu_over (Some v) 60" by (simp add: cpu_over_Some)
  with True show ?thesis
    by (simp add: impact_score_def max_def Let_def)
next
  case False
  then have "\<not> cpu_over (Some v) 60" by (simp add: cpu_over_Some)
  with False show ?thesis
    by (simp add: impact_score_def max_def Let_def)
qed

lemma impact_score_sum:
  "impact_score b d c =
     max 0 (b - 25) * 0.003
     + (if d = ''charging'' \<and> b > 30 then 0.02 else 0)
     + (case c of None \<Rightarrow> 0 | Some v \<Rightarrow> max 0 (v - 60) * 0.001)"
  by (cases c) (simp_all only: impact_score_sum_None impact_score_sum_Some option.case add_0_right)

lemma clamp_nonneg: "(0::real) \<le> s \<Longrightarrow> max 0 (min 0.15 s) = min s 0.15"
  by (simp add: max_def min_def)

lemma gemini_impact_bounds:
  "0 \<le> predicted_health_impact (get_gemini_advice b a d l c s) \<and>
   predicted_health_impact (get_gemini_advice b a d l c s) \<le> 0.15"
  by (cases s)
    (simp_all add: get_gemini_advice_def impact_primary fallback_advice_def impact_score_nonneg)

subsection \<open>The danger threshold\<close>

text \<open>
  Claim C2, as stated, fails. A CPU temperature of 90 with a battery at 30 degrees is an
  input with \<open>cpuTemp > 85\<close>, and when the service call fails the advice for it is
  \<open>safe\<close>: the \<^verbatim>\<open>except\<close> block never reads \<open>cpu_temp\<close>.
\<close>

theorem danger_fallback_counterexample:
  "(90::real) > 85 \<and>
   alert_level (get_gemini_advice 30 25 ''idle'' (Some 75) (Some 90) (Inl ''timeout'')) = ''safe'' \<and>
   alert_level (get_gemini_advice 30 25 ''idle'' (Some 75) (Some 90) (Inl ''timeout'')) \<noteq> ''danger''"
  by (simp add: get_gemini_advice_def fallback_advice_def)

text \<open>
  Claim C2, amended. When the service answers, every input with \<open>batteryTemp > 45\<close>, or
  with a CPU temperature present and above 85, gets the alert level \<open>danger\<close>. When the
  service call fails, the alert level is \<open>danger\<close> exactly when \<open>batteryTemp > 40\<close>,
  hence for every \<open>batteryTemp > 45\<close>, and \<open>safe\<close> otherwise; the CPU temperature
  plays no part.
\<close>

theorem danger_primary_and_fallback:
  "((b > 45 \<or> (\<exists>v. c = Some v \<and> v > 85)) \<longrightarrow>
      alert_level (get_gemini_advice b a d l c (Inr txt)) = ''danger'') \<and>
   (alert_level (get_gemini_advice b a d l c (Inl e)) = ''danger'') = (b > 40) \<and>
   (b > 45 \<longrightarrow> alert_level (get_gemini_advice b a d l c (Inl e)) = ''danger'') \<and>
   (\<not> b > 40 \<longrightarrow> alert_level (get_gemini_advice b a d l c (Inl e)) = ''safe'')"
  by (auto simp: get_gemini_advice_def alert_primary cpu_over_pos fallback_advice_def)

theorem danger_primary_and_fallback_witness:
  "alert_level (get_gemini_advice 30 25 ''idle'' (Some 75) (Some 90) (Inr ''ok'')) = ''danger'' \<and>
   alert_level (get_gemini_advice 30 25 ''idle'' (Some 75) (Some 90) (Inl ''timeout'')) = ''safe'' \<and>
   alert_level (get_gemini_advice 50 30 ''charging'' (Some 75) None (Inr ''ok'')) = ''danger'' \<and>
   alert_level (get_gemini_advice 50 30 ''charging'' (Some 75) None (Inl ''timeout'')) = ''danger''"
  using danger_primary_and_fallback [of 30 "Some 90" 25 "''idle''" "Some 75" "''ok''" "''timeout''"]
        danger_primary_and_fallback [of 50 None 30 "''charging''" "Some 75" "''ok''" "''timeout''"]
  by simp

subsection \<open>The warning band\<close>

text \<open>
  Claim C5, as stated, fails. A battery at 39 degrees with no CPU reading lies in the
  band \<open>38 < batteryTemp \<le> 45\<close>, and when the service call fails the advice for it is
  \<open>safe\<close>, not \<open>warning\<close>.
\<close>

theorem warning_fallback_counterexample:
  "(38::real) < 39 \<and> (39::real) \<le> 45 \<and>
   alert_level (get_gemini_advice 39 25 ''idle'' (Some 75) None (Inl ''timeout'')) = ''safe'' \<and>
   alert_level (get_gemini_advice 39 25 ''idle'' (Some 75) None (Inl ''timeout'')) \<noteq> ''warning''"
  by (simp add: get_gemini_advice_def fallback_advice_def)

text \<open>
  Claim C5, amended. When the service answers, every input with
  \<open>38 < batteryTemp \<le> 45\<close> and a CPU temperature absent or at most 85 gets the alert
  level \<open>warning\<close>. When the service call fails, the same band splits at 40 degrees:
  \<open>safe\<close> up to 40, \<open>danger\<close> above.
\<close>

theorem warning_primary_only:
  "(38 < b \<and> b \<le> 45 \<and> (c = None \<or> (\<exists>v. c = Some v \<and> v \<le> 85)) \<longrightarrow>
      alert_level (get_gemini_advice b a d l c (Inr txt)) = ''warning'') \<and>
   (38 < b \<and> b \<le> 40 \<longrightarrow> alert_level (get_gemini_advice b a d l c (Inl e)) = ''safe'') \<and>
   (40 < b \<and> b \<le> 45 \<longrightarrow> alert_level (get_gemini_advice b a d l c (Inl e)) = ''danger'')"
  by (auto simp: get_gemini_advice_def alert_primary cpu_over_pos fallback_advice_def)

theorem warning_primary_only_witness:
  "alert_level (get_gemini_advice 39 25 ''idle'' (Some 75) None (Inr ''ok'')) = ''warning'' \<and>
   alert_level (get_gemini_advice 39 25 ''idle'' (Some 75) None (Inl ''timeout'')) = ''safe'' \<and>
   alert_level (get_gemini_advice 42 25 ''idle'' (Some 75) (Some 80) (Inr ''ok'')) = ''warning'' \<and>
   alert_level (get_gemini_advice 42 25 ''idle'' (Some 75) (Some 80) (Inl ''timeout'')) = ''danger''"
  using warning_primary_only [of 39 None 25 "''idle''" "Some 75" "''ok''" "''timeout''"]
        warning_primary_only [of 42 "Some 80" 25 "''idle''" "Some 75" "''ok''" "''timeout''"]
  by simp

subsection \<open>The fallback\<close>

text \<open>
  Claim C3. When the service call fails, \<open>get_gemini_advice\<close> still returns an advice
  (the function has no raising branch left: its result type is the advice itself), for
  every input, a missing CPU temperature included, and the advice is one of two: above
  40 degrees of battery temperature the level \<open>danger\<close>, the action
  \<open>Stop charging and close heavy applications\<close> and the impact \<open>0.1\<close>; otherwise the
  level \<open>safe\<close>, no action and the impact \<open>0.02\<close>.
\<close>

theorem fallback_two_cases:
  "(b > 40 \<longrightarrow>
      alert_level (get_gemini_advice b a d l c (Inl e)) = ''danger'' \<and>
      optional_action (get_gemini_advice b a d l c (Inl e))
        = Some ''Stop charging and close heavy applications'' \<and>
      predicted_health_impact (get_gemini_advice b a d l c (Inl e)) = 0.1) \<and>
   (\<not> b > 40 \<longrightarrow>
      alert_level (get_gemini_advice b a d l c (Inl e)) = ''safe'' \<and>
      optional_action (get_gemini_advice b a d l c (Inl e)) = None \<and>
      predicted_health_impact (get_gemini_advice b a d l c (Inl e)) = 0.02)"
  by (simp add: get_gemini_advice_def fallback_advice_def)

theorem fallback_two_cases_witness:
  "alert_level (get_gemini_advice 41 20 ''idle'' None None (Inl ''timeout'')) = ''danger'' \<and>
   optional_action (get_gemini_advice 41 20 ''idle'' None None (Inl ''timeout''))
     = Some ''Stop charging and close heavy applications'' \<and>
   predicted_health_impact (get_gemini_advice 41 20 ''idle'' None None (Inl ''timeout'')) = 0.1 \<and>
   alert_level (get_gemini_advice 40 20 ''idle'' None None (Inl ''timeout'')) = ''safe'' \<and>
   optional_action (get_gemini_advice 40 20 ''idle'' None None (Inl ''timeout'')) = None \<and>
   predicted_health_impact (get_gemini_advice 40 20 ''idle'' None None (Inl ''timeout'')) = 0.02"
  using fallback_two_cases [of 41 20 "''idle''" None None "''timeout''"]
        fallback_two_cases [of 40 20 "''idle''" None None "''timeout''"]
  by simp

text \<open>
  Claim C10. When the service call fails, the alert level of the advice is never
  \<open>warning\<close>: it is \<open>safe\<close> or \<open>danger\<close>, whatever the conditions.
\<close>

theorem fallback_never_warning:
  "alert_level (get_gemini_advice b a d l c (Inl e)) \<noteq> ''warning'' \<and>
   (alert_level (get_gemini_advice b a d l c (Inl e)) = ''safe'' \<or>
    alert_level (get_gemini_advice b a d l c (Inl e)) = ''danger'')"
  by (simp add: get_gemini_advice_def fallback_advice_def)

theorem fallback_never_warning_witness:
  "alert_level (get_gemini_advice 39 25 ''active'' (Some 50) (Some 75) (Inl ''timeout''))
     \<noteq> ''warning''"
  using fallback_never_warning [of 39 25 "''active''" "Some 50" "Some 75" "''timeout''"]
  by simp

subsection \<open>The score and the text of the service\<close>

text \<open>
  Claim C4. On the primary path the impact in the advice is the specification's rule,
  for every battery temperature, device state and CPU temperature, present or absent.
\<close>

theorem impact_matches_spec_rule:
  "predicted_health_impact (get_gemini_advice b a d l c (Inr txt)) = spec_impact b d c"
proof -
  have "0 \<le> impact_score b d c" by (rule impact_score_nonneg)
  then have "max 0 (min 0.15 (impact_score b d c)) = min (impact_score b d c) 0.15"
    by (rule clamp_nonneg)
  moreover have "spec_impact b d c = max 0 (min 0.15 (impact_score b d c))"
    by (simp only: spec_impact_def impact_score_sum)
  ultimately show ?thesis
    by (simp add: get_gemini_advice_def impact_primary)
qed

theorem impact_matches_spec_rule_witness:
  "predicted_health_impact (get_gemini_advice 50 30 ''charging'' (Some 75) (Some 90) (Inr ''ok''))
     = spec_impact 50 ''charging'' (Some 90)"
  using impact_matches_spec_rule [of 50 30 "''charging''" "Some 75" "Some 90" "''ok''"]
  by simp

text \<open>
  Claim C9. On the primary path the alert level and the recommended action do not
  depend on the text the service returned: two runs on the same conditions with two
  different answers give the same level and the same action.
\<close>

theorem alert_independent_of_text:
  "alert_level (get_gemini_advice b a d l c (Inr t1))
     = alert_level (get_gemini_advice b a d l c (Inr t2)) \<and>
   optional_action (get_gemini_advice b a d l c (Inr t1))
     = optional_action (get_gemini_advice b a d l c (Inr t2))"
  by (simp add: get_gemini_advice_def alert_primary action_primary)

theorem alert_independent_of_text_witness:
  "alert_level (get_gemini_advice 39 25 ''idle'' (Some 75) None (Inr ''All is well''))
     = alert_level (get_gemini_advice 39 25 ''idle'' (Some 75) None (Inr ''DANGER: shut down now''))"
  using alert_independent_of_text
    [of 39 25 "''idle''" "Some 75" None "''All is well''" "''DANGER: shut down now''"]
  by simp

section \<open>Properties of the advice endpoint\<close>

subsection \<open>Auxiliary facts\<close>

text \<open>Rounding to five decimals keeps a value inside the interval from \<open>0\<close> to \<open>0.15\<close>.\<close>

lemma py_round5_bounds:
  assumes "0 \<le> x" "x \<le> 0.15"
  shows "0 \<le> py_round5 x \<and> py_round5 x \<le> 0.15"
proof -
  define y where "y = x * 100000"
  define f where "f = \<lfloor>y\<rfloor>"
  define n where "n = (if y - of_int f < 1/2 then f else if y - of_int f > 1/2 then f + 1
                       else if even f then f else f + 1)"
  have y0: "0 \<le> y" and y1: "y \<le> 15000" using assms by (simp_all add: y_def)
  have f0: "0 \<le> f" using y0 by (simp add: f_def)
  have f1: "f \<le> 15000" using y1 by (simp add: f_def floor_le_iff)
  have up: "f + 1 \<le> 15000" if "y - of_int f \<ge> 1/2"
  proof -
    from that have "of_int f < y" by linarith
    with y1 have "of_int f < (15000::real)" by linarith
    then show ?thesis by simp
  qed
  have n0: "0 \<le> n" using f0 by (simp add: n_def)
  have n1: "n \<le> 15000" using f1 up by (auto simp: n_def)
  have eq: "py_round5 x = of_int n / 100000"
    by (simp add: py_round5_def Let_def n_def f_def y_def)
  have "0 \<le> (of_int n :: real)" using n0 by simp
  moreover have "(of_int n :: real) \<le> 15000" using n1 by simp
  ultimately show ?thesis unfolding eq by simp
qed

text \<open>What a response of the endpoint is made of.\<close>

lemma get_advice_Inr:
  assumes "get_advice env inp = Inr r"
  shows "\<exists>columns encoded impact.
           load_columns env = Inr columns \<and>
           encode env (device_state inp) = Inr encoded \<and>
           predict env (reindex columns
             ([(''battery_temp'', battery_temp inp), (''ambient_temp'', ambient_temp inp)]
                @ encoded)) = Inr impact \<and>
           predicted_health_impact r = py_round5 impact"
  using assms
  by (auto simp: get_advice_def Let_def split: sum.splits)

lemma get_advice_model_raises:
  assumes "load_columns env = Inr columns"
    and "encode env (device_state inp) = Inr encoded"
    and "predict env (reindex columns
            ([(''battery_temp'', battery_temp inp), (''ambient_temp'', ambient_temp inp)]
               @ encoded)) = Inl e"
  shows "get_advice env inp = Inl (HTTPException 500 e)"
  using assms by (simp add: get_advice_def)

subsection \<open>The range of the impact\<close>

text \<open>
  Claim C1, as stated, fails. With a model that predicts \<open>0.5\<close>, the endpoint answers
  with a predicted health impact of \<open>0.5\<close>, above \<open>0.15\<close>, both when the service
  answers and when it fails: the endpoint drops the impact of \<open>get_gemini_advice\<close> and
  reports the model's prediction, rounded and nothing else.
\<close>

theorem advice_impact_counterexample:
  "get_advice (sample_env (Inr 0.5) (Inr ''ok''))
     \<lparr> battery_temp = 30, ambient_temp = 25, device_state = ''idle'',
       battery_level = Some 75, cpu_temp = None \<rparr>
   = Inr \<lparr> natural_language_tip = ''ok'', alert_level = ''safe'', optional_action = None,
           predicted_health_impact = 0.5 \<rparr> \<and>
   map_sum id predicted_health_impact
     (get_advice (sample_env (Inr 0.5) (Inl ''timeout''))
        \<lparr> battery_temp = 30, ambient_temp = 25, device_state = ''idle'',
          battery_level = Some 75, cpu_temp = None \<rparr>)
   = Inr 0.5 \<and>
   \<not> (0.5::real) \<le> 0.15"
  by (simp add: get_advice_def sample_env_def get_gemini_advice_def primary_advice_def
      fallback_advice_def cpu_over_def truthy_def py_round5_def Let_def reindex_def)

text \<open>
  Claim C1, amended. Every advice returned by \<open>get_gemini_advice\<close>, on its primary and
  on its fallback path, has a predicted health impact between \<open>0\<close> and \<open>0.15\<close>. The
  response of the advice endpoint does not carry that value: its impact is the
  prediction of the injected model rounded to five decimals, so it lies between \<open>0\<close>
  and \<open>0.15\<close> whenever the prediction does.
\<close>

theorem advisory_impact_bounds:
  "0 \<le> predicted_health_impact (get_gemini_advice b a d l c s) \<and>
   predicted_health_impact (get_gemini_advice b a d l c s) \<le> 0.15 \<and>
   (get_advice env inp = Inr r \<longrightarrow>
      (\<exists>columns encoded impact.
         load_columns env = Inr columns \<and>
         encode env (device_state inp) = Inr encoded \<and>
         predict env (reindex columns
           ([(''battery_temp'', battery_temp inp), (''ambient_temp'', ambient_temp inp)]
              @ encoded)) = Inr impact \<and>
         predicted_health_impact r = py_round5 impact \<and>
         (0 \<le> impact \<and> impact \<le> 0.15 \<longrightarrow>
            0 \<le> predicted_health_impact r \<and> predicted_health_impact r \<le> 0.15)))"
proof (intro conjI impI)
  show "0 \<le> predicted_health_impact (get_gemini_advice b a d l c s)"
    using gemini_impact_bounds by blast
  show "predicted_health_impact (get_gemini_advice b a d l c s) \<le> 0.15"
    using gemini_impact_bounds by blast
next
  assume "get_advice env inp = Inr r"
  then obtain columns encoded impact where
    h: "load_columns env = Inr columns"
       "encode env (device_state inp) = Inr encoded"
       "predict env (reindex columns
          ([(''battery_temp'', battery_temp inp), (''ambient_temp'', ambient_temp inp)]
             @ encoded)) = Inr impact"
       "predicted_health_impact r = py_round5 impact"
    using get_advice_Inr by blast
  have "0 \<le> impact \<and> impact \<le> 0.15 \<longrightarrow>
          0 \<le> predicted_health_impact r \<and> predicted_health_impact r \<le> 0.15"
    using py_round5_bounds h(4) by simp
  with h show "\<exists>columns encoded impact.
         load_columns env = Inr columns \<and>
         encode env (device_state inp) = Inr encoded \<and>
         predict env (reindex columns
           ([(''battery_temp'', battery_temp inp), (''ambient_temp'', ambient_temp inp)]
              @ encoded)) = Inr impact \<and>
         predicted_health_impact r = py_round5 impact \<and>
         (0 \<le> impact \<and> impact \<le> 0.15 \<longrightarrow>
            0 \<le> predicted_health_impact r \<and> predicted_health_impact r \<le> 0.15)"
    by blast
qed

theorem advisory_impact_bounds_witness:
  "get_advice (sample_env (Inr 0.1234567) (Inr ''ok''))
     \<lparr> battery_temp = 50, ambient_temp = 30, device_state = ''charging'',
       battery_level = Some 75, cpu_temp = Some 90 \<rparr>
   = Inr \<lparr> natural_language_tip = ''ok'', alert_level = ''danger'',
           optional_action = Some ''Immediate cooling required - shut down intensive tasks'',
           predicted_health_impact = 0.12346 \<rparr> \<and>
   (0::real) \<le> 0.12346 \<and> (0.12346::real) \<le> 0.15 \<and>
   predicted_health_impact
     (get_gemini_advice 50 30 ''charging'' (Some 75) (Some 90) (Inr ''ok'')) = 0.125"
  using advisory_impact_bounds
    [where env = "sample_env (Inr 0.1234567) (Inr ''ok'')"
       and inp = "\<lparr> battery_temp = 50, ambient_temp = 30, device_state = ''charging'',
                    battery_level = Some 75, cpu_temp = Some 90 \<rparr>"
       and b = 50 and a = 30 and d = "''charging''" and l = "Some 75" and c = "Some 90"
       and s = "Inr ''ok''"]
  by (simp add: get_advice_def sample_env_def get_gemini_advice_def primary_advice_def
      impact_score_def cpu_over_def truthy_def py_round5_def Let_def reindex_def)

subsection \<open>A failing model\<close>

text \<open>
  Claim C6, as stated, fails. When the model raises, the endpoint raises too: the
  handler of its \<^verbatim>\<open>try\<close> block turns the exception into an HTTP 500 error with the
  message as detail, and no advice is produced.
\<close>

theorem model_failure_counterexample:
  "get_advice (sample_env (Inl ''model failed'') (Inr ''ok''))
     \<lparr> battery_temp = 30, ambient_temp = 25, device_state = ''idle'',
       battery_level = Some 75, cpu_temp = None \<rparr>
   = Inl (HTTPException 500 ''model failed'')"
  by (simp add: get_advice_def sample_env_def)

text \<open>
  Claim C6, amended. If the injected predictive model raises during an advisory
  request, the request fails with an HTTP 500 error whose detail is the message of the
  exception; the deterministic rule score is not substituted. A value that the model
  returns is not checked either: every response carries it rounded to five decimals.
\<close>

theorem model_failure_surfaces:
  "(load_columns env = Inr columns \<and>
    encode env (device_state inp) = Inr encoded \<and>
    predict env (reindex columns
      ([(''battery_temp'', battery_temp inp), (''ambient_temp'', ambient_temp inp)]
         @ encoded)) = Inl e
    \<longrightarrow> get_advice env inp = Inl (HTTPException 500 e)) \<and>
   (get_advice env inp = Inr r \<longrightarrow>
      (\<exists>columns encoded impact.
         load_columns env = Inr columns \<and>
         encode env (device_state inp) = Inr encoded \<and>
         predict env (reindex columns
           ([(''battery_temp'', battery_temp inp), (''ambient_temp'', ambient_temp inp)]
              @ encoded)) = Inr impact \<and>
         predicted_health_impact r = py_round5 impact))"
  using get_advice_model_raises get_advice_Inr by blast

theorem model_failure_surfaces_witness:
  "get_advice (sample_env (Inl ''model failed'') (Inl ''timeout''))
     \<lparr> battery_temp = 50, ambient_temp = 30, device_state = ''charging'',
       battery_level = Some 75, cpu_temp = Some 90 \<rparr>
   = Inl (HTTPException 500 ''model failed'') \<and>
   map_sum id predicted_health_impact
     (get_advice (sample_env (Inr (- 1)) (Inl ''timeout''))
        \<lparr> battery_temp = 50, ambient_temp = 30, device_state = ''charging'',
          battery_level = Some 75, cpu_temp = Some 90 \<rparr>)
   = Inr (- 1)"
  using model_failure_surfaces
    [where env = "sample_env (Inl ''model failed'') (Inl ''timeout'')"
       and inp = "\<lparr> battery_temp = 50, ambient_temp = 30, device_state = ''charging'',
                    battery_level = Some 75, cpu_temp = Some 90 \<rparr>"
       and e = "''model failed''"]
  by (simp add: get_advice_def sample_env_def get_gemini_advice_def
      fallback_advice_def py_round5_def Let_def reindex_def)

section \<open>Properties of the temperature acquisition\<close>

subsection \<open>Auxiliary facts\<close>

text \<open>The estimates never fail, and they fill every entry.\<close>

lemma fill_missing_total:
  "fill_missing t =
     Inr \<lparr> cpu = Some (case cpu t of None \<Rightarrow> 45 | Some v \<Rightarrow> v),
           battery = Some (case battery t of
                             None \<Rightarrow> (case cpu t of None \<Rightarrow> 45 | Some v \<Rightarrow> v) * 0.8
                           | Some v \<Rightarrow> v),
           system = Some (case system t of
                            None \<Rightarrow> (case cpu t of None \<Rightarrow> 45 | Some v \<Rightarrow> v) * 0.7
                          | Some v \<Rightarrow> v),
           source = source t \<rparr>"
proof (cases t)
  case (fields c b s src)
  show ?thesis
    by (cases c; cases b; cases s) (simp_all add: fields fill_missing_def py_mul_def)
qed

lemma read_acpi_keeps:
  "cpu (read_acpi acpi t) = cpu t \<and> battery (read_acpi acpi t) = battery t"
  by (simp add: read_acpi_def split: sum.splits list.splits option.splits)

lemma lower_cpu_package: "lower ''CPU Package'' = ''cpu package''"
  by code_simp

lemma lower_cpu_core: "lower ''CPU Core #1'' = ''cpu core #1''"
  by code_simp

lemma lower_cpu_total: "lower ''CPU Total'' = ''cpu total''"
  by code_simp

subsection \<open>A populated snapshot\<close>

text \<open>
  Claim C7, as stated, fails. On a machine that is not Windows no provider is asked and
  the CPU entry is wholly absent, yet the result is not the estimate \<open>45\<close>: the method
  returns early with a simulated snapshot around \<open>35\<close> degrees, here \<open>35\<close> for a draw
  of \<open>0\<close>.
\<close>

theorem temperature_default_counterexample:
  "get_temperature_info \<lparr> is_windows = False, wmi_client = None \<rparr> (Inl ''unused'') 0
     = Inr \<lparr> cpu = Some 35, battery = Some 28, system = Some 24.5, source = ''simulated'' \<rparr> \<and>
   (35::real) \<noteq> 45"
  by (simp add: get_temperature_info_def get_fallback_temperature_info_def Let_def)

text \<open>
  Claim C7, amended. \<open>get_temperature_info\<close> never raises, and the dictionary it
  returns has a value under each of \<open>cpu\<close>, \<open>battery\<close> and \<open>system\<close>. When the
  reader is on Windows and has a client, whatever the providers answer, an entry they
  left empty is the estimate: \<open>45\<close> for the CPU, the CPU value times \<open>0.8\<close> for the
  battery, the CPU value times \<open>0.7\<close> for the system. Otherwise no provider is asked
  and the snapshot is simulated: \<open>35 + u\<close> for the CPU, where \<open>u\<close> is the value drawn
  between \<open>-5\<close> and \<open>10\<close>, that value times \<open>0.8\<close> for the battery and times \<open>0.7\<close>
  for the system, with the source \<open>simulated\<close>.
\<close>

theorem temperature_info_populated:
  "\<exists>t. get_temperature_info self acpi u = Inr t \<and>
     cpu t \<noteq> None \<and> battery t \<noteq> None \<and> system t \<noteq> None \<and>
     (is_windows self \<longrightarrow>
        (\<forall>client. wmi_client self = Some client \<longrightarrow>
           cpu t = Some (case cpu (read_providers client acpi) of None \<Rightarrow> 45 | Some v \<Rightarrow> v) \<and>
           battery t = Some (case battery (read_providers client acpi) of
                               None \<Rightarrow> (case cpu (read_providers client acpi) of
                                          None \<Rightarrow> 45 | Some v \<Rightarrow> v) * 0.8
                             | Some v \<Rightarrow> v) \<and>
           system t = Some (case system (read_providers client acpi) of
                              None \<Rightarrow> (case cpu (read_providers client acpi) of
                                         None \<Rightarrow> 45 | Some v \<Rightarrow> v) * 0.7
                            | Some v \<Rightarrow> v))) \<and>
     (\<not> is_windows self \<or> wmi_client self = None \<longrightarrow>
        t = \<lparr> cpu = Some (35 + u), battery = Some ((35 + u) * 0.8),
              system = Some ((35 + u) * 0.7), source = ''simulated'' \<rparr>)"
proof (cases "\<not> is_windows self \<or> wmi_client self = None")
  case True
  then have r: "get_temperature_info self acpi u = Inr (get_fallback_temperature_info u)"
    by (simp add: get_temperature_info_def)
  have p: "cpu (get_fallback_temperature_info u) \<noteq> None \<and>
           battery (get_fallback_temperature_info u) \<noteq> None \<and>
           system (get_fallback_temperature_info u) \<noteq> None"
    by (simp add: get_fallback_temperature_info_def Let_def)
  have q: "get_fallback_temperature_info u
             = \<lparr> cpu = Some (35 + u), battery = Some ((35 + u) * 0.8),
                 system = Some ((35 + u) * 0.7), source = ''simulated'' \<rparr>"
    by (simp add: get_fallback_temperature_info_def Let_def)
  from True have n: "is_windows self \<Longrightarrow> wmi_client self = None"
    by auto
  show ?thesis
    using r p q n by (intro exI [of _ "get_fallback_temperature_info u"]) simp
next
  case False
  then obtain client where w: "is_windows self" and c: "wmi_client self = Some client"
    by auto
  show ?thesis
    by (simp add: get_temperature_info_def w c fill_missing_total)
qed

theorem temperature_info_populated_witness:
  "get_temperature_info
     \<lparr> is_windows = True,
       wmi_client = Some (Inr
         [\<lparr> SensorType = ''Temperature'', Name = Some ''CPU Package'', Value = Some 61 \<rparr>,
          \<lparr> SensorType = ''Load'', Name = Some ''CPU Total'', Value = Some 12 \<rparr>,
          \<lparr> SensorType = ''Temperature'', Name = Some ''CPU Core #1'', Value = Some 70 \<rparr>]) \<rparr>
     (Inl ''unused'') 0
   = Inr \<lparr> cpu = Some 61, battery = Some 48.8, system = Some 42.7,
           source = ''OpenHardwareMonitor'' \<rparr> \<and>
   get_temperature_info \<lparr> is_windows = True, wmi_client = Some (Inr []) \<rparr> (Inl ''unused'') 0
   = Inr \<lparr> cpu = Some 45, battery = Some 36, system = Some 31.5,
           source = ''OpenHardwareMonitor'' \<rparr> \<and>
   get_temperature_info \<lparr> is_windows = False, wmi_client = None \<rparr> (Inl ''unused'') 2
   = Inr \<lparr> cpu = Some 37, battery = Some 29.6, system = Some 25.9, source = ''simulated'' \<rparr>"
  using temperature_info_populated
    [of "\<lparr> is_windows = True,
       wmi_client = Some (Inr
         [\<lparr> SensorType = ''Temperature'', Name = Some ''CPU Package'', Value = Some 61 \<rparr>,
          \<lparr> SensorType = ''Load'', Name = Some ''CPU Total'', Value = Some 12 \<rparr>,
          \<lparr> SensorType = ''Temperature'', Name = Some ''CPU Core #1'', Value = Some 70 \<rparr>]) \<rparr>"
        "Inl ''unused''" 0]
    temperature_info_populated [of "\<lparr> is_windows = False, wmi_client = None \<rparr>" "Inl ''unused''" 2]
  by (simp add: get_temperature_info_def read_providers_def fill_missing_total
      get_fallback_temperature_info_def Let_def
      lower_cpu_package lower_cpu_core lower_cpu_total)

subsection \<open>The thermal zone reading\<close>

text \<open>
  Claim C8. The thermal zone reading, in tenths of Kelvin, becomes
  \<open>raw / 10 - 273.15\<close> degrees Celsius; a raw value of \<open>3000\<close> gives \<open>26.85\<close> within
  \<open>0.01\<close>. The reading is stored under \<open>system\<close> only: the entries \<open>cpu\<close> and
  \<open>battery\<close> are as they were, and when the sensor query raised they end as the
  estimates \<open>45\<close> and \<open>36\<close>.
\<close>

theorem acpi_conversion:
  "acpi_celsius raw = raw / 10 - 273.15 \<and>
   \<bar>acpi_celsius 3000 - 26.85\<bar> \<le> 0.01 \<and>
   read_acpi (Inr (Some raw # zs)) t
     = t\<lparr>system := Some (acpi_celsius raw), source := ''MSAcpi''\<rparr> \<and>
   cpu (read_acpi acpi t) = cpu t \<and> battery (read_acpi acpi t) = battery t \<and>
   get_temperature_info \<lparr> is_windows = True, wmi_client = Some (Inl e) \<rparr>
     (Inr (Some raw # zs)) u
     = Inr \<lparr> cpu = Some 45, battery = Some 36, system = Some (raw / 10 - 273.15),
             source = ''MSAcpi'' \<rparr>"
  by (simp add: read_acpi_keeps get_temperature_info_def read_providers_def fill_missing_total)
     (simp add: read_acpi_def acpi_celsius_def)

theorem acpi_conversion_witness:
  "acpi_celsius 3000 = 26.85 \<and>
   get_temperature_info \<lparr> is_windows = True, wmi_client = Some (Inl ''no Sensor class'') \<rparr>
     (Inr [Some 3000]) 0
     = Inr \<lparr> cpu = Some 45, battery = Some 36, system = Some 26.85, source = ''MSAcpi'' \<rparr>"
  using acpi_conversion [of 3000 "[]" _ _ "''no Sensor class''" 0]
  by (simp add: acpi_celsius_def)

end
